theory Spec2Isabelle
  imports Main
begin

section \<open>JavaScript values the session router relies on\<close>

text \<open>
  Both session tables of \<^verbatim>\<open>src/index.ts\<close> are plain object literals:
  \<^verbatim>\<open>
  const transports = {
    streamable: {} as Record<string, StreamableHTTPServerTransport>,
    sse: {} as Record<string, SSEServerTransport>
  };
  \<close>
  An object literal has \<^verbatim>\<open>Object.prototype\<close> as its prototype, so a read
  \<^verbatim>\<open>table[key]\<close> first looks for an own property and otherwise finds whatever
  \<^verbatim>\<open>Object.prototype\<close> defines under that name. The own properties are a map from
  keys to transport objects; the inherited names are the fixed list below (the
  properties of \<^verbatim>\<open>Object.prototype\<close> in ECMAScript, Annex B included). Every
  inherited value is a function, or for \<^verbatim>\<open>__proto__\<close> the prototype object itself:
  all of them are truthy, and none of them has a \<^verbatim>\<open>handleRequest\<close> or
  \<^verbatim>\<open>handlePostMessage\<close> method.
\<close>

definition object_prototype_keys :: "string list" where
  "object_prototype_keys =
     [''constructor'', ''__defineGetter__'', ''__defineSetter__'', ''hasOwnProperty'',
      ''__lookupGetter__'', ''__lookupSetter__'', ''isPrototypeOf'',
      ''propertyIsEnumerable'', ''toString'', ''valueOf'', ''__proto__'',
      ''toLocaleString'']"

text \<open>The result of reading a property: nothing, an own entry, or an inherited member.\<close>

datatype 'a js_lookup = Undefined | Own 'a | Inherited string

definition js_get :: "(string \<rightharpoonup> 'a) \<Rightarrow> string \<Rightarrow> 'a js_lookup" where
  "js_get obj k =
     (case obj k of
        Some v \<Rightarrow> Own v
      | None \<Rightarrow> if k \<in> set object_prototype_keys then Inherited k else Undefined)"

text \<open>
  A header value has type \<^verbatim>\<open>string | undefined\<close>. It is truthy when it is present
  and not the empty string.
\<close>

fun truthy :: "string option \<Rightarrow> bool" where
  "truthy None = False"
| "truthy (Some s) = (s \<noteq> [])"

text \<open>
  \<^verbatim>\<open>sessionId && table[sessionId]\<close>: the left operand when it is falsy (modelled by
  \<open>Undefined\<close>, which stands for any falsy value here), the property read otherwise.
\<close>

fun guarded_get :: "(string \<rightharpoonup> 'a) \<Rightarrow> string option \<Rightarrow> 'a js_lookup" where
  "guarded_get obj None = Undefined"
| "guarded_get obj (Some s) = (if s = [] then Undefined else js_get obj s)"

text \<open>
  \<^verbatim>\<open>req.query.sessionId\<close> as the query parser delivers it: absent, a string, an
  array (\<^verbatim>\<open>?sessionId=a&sessionId=b\<close>) or a nested object with its own properties
  (\<^verbatim>\<open>?sessionId[k]=v\<close>). Used as a property key it is converted to a string:
  \<^verbatim>\<open>undefined\<close> gives \<^verbatim>\<open>"undefined"\<close>; an array joins the strings of its
  elements with commas, an absent element counting as the empty string; an object gives
  \<^verbatim>\<open>"[object Object]"\<close> through the inherited \<^verbatim>\<open>toString\<close>, unless it has an own
  property \<^verbatim>\<open>toString\<close>. That property holds parsed query data and is not callable,
  the inherited \<^verbatim>\<open>valueOf\<close> returns the object itself, and the conversion raises a
  \<^verbatim>\<open>TypeError\<close>.
\<close>

datatype js_error = TypeError string

datatype query_param =
  QAbsent | QString string | QArray "query_param list" | QObject "(string \<times> query_param) list"

fun join_comma :: "string list \<Rightarrow> string" where
  "join_comma [] = []"
| "join_comma [x] = x"
| "join_comma (x # y # ys) = x @ '','' @ join_comma (y # ys)"

text \<open>The strings of the elements in order, or the first error among them.\<close>

fun all_strings :: "(js_error + string) list \<Rightarrow> js_error + string list" where
  "all_strings [] = Inr []"
| "all_strings (Inl e # rs) = Inl e"
| "all_strings (Inr s # rs) =
     (case all_strings rs of Inl e \<Rightarrow> Inl e | Inr ss \<Rightarrow> Inr (s # ss))"

fun to_property_key :: "query_param \<Rightarrow> js_error + string" where
  "to_property_key QAbsent = Inr ''undefined''"
| "to_property_key (QString s) = Inr s"
| "to_property_key (QArray xs) =
     (case all_strings
             (map (\<lambda>x. case x of QAbsent \<Rightarrow> Inr [] | _ \<Rightarrow> to_property_key x) xs) of
        Inl e \<Rightarrow> Inl e
      | Inr ss \<Rightarrow> Inr (join_comma ss))"
| "to_property_key (QObject fields) =
     (if ''toString'' \<in> set (map fst fields)
      then Inl (TypeError ''Cannot convert object to primitive value'')
      else Inr ''[object Object]'')"

text \<open>
  Session ids are produced by \<^verbatim>\<open>randomUUID()\<close> (directly in the
  \<^verbatim>\<open>sessionIdGenerator\<close> of the source, and inside the constructor of the legacy
  transport): 36 characters, lower-case hexadecimal digits in groups of 8-4-4-4-12
  separated by dashes.
\<close>

definition is_uuid :: "string \<Rightarrow> bool" where
  "is_uuid s \<longleftrightarrow>
     length s = 36 \<and>
     list_all (\<lambda>(i, c). if i \<in> set [8, 13, 18, 23 :: nat] then c = CHR ''-''
                         else c \<in> set ''0123456789abcdef'')
       (enumerate 0 s)"

section \<open>Responses\<close>

datatype json = JNull | JNumber int | JString string | JObject "(string \<times> json) list"

datatype http_body = JsonBody json | TextBody string

text \<open>
  What a route handler does with a request: answer it itself, hand it to a transport
  endpoint, or fail with the \<^verbatim>\<open>TypeError\<close> JavaScript raises when the value called
  as a method is \<^verbatim>\<open>undefined\<close> or when a value cannot be converted to a property
  key.
\<close>

datatype outcome =
    Respond nat http_body
  | HandleRequest nat
  | ConnectAndHandleRequest nat
  | ConnectStream nat
  | HandlePostMessage nat
  | Threw js_error

definition no_valid_session_error :: json where
  "no_valid_session_error =
     JObject
       [(''jsonrpc'', JString ''2.0''),
        (''error'',
           JObject [(''code'', JNumber (- 32000)),
                    (''message'', JString ''Bad Request: No valid session ID provided'')]),
        (''id'', JNull)]"

section \<open>The session tables and the route handlers\<close>

text \<open>
  Transport objects are identified by the order of their construction: \<open>allocated\<close>
  counts the transports built so far, and the next one gets that number.
\<close>

record server_state =
  streamable :: "string \<rightharpoonup> nat"
  sse :: "string \<rightharpoonup> nat"
  allocated :: nat

definition initial_state :: server_state where
  "initial_state = \<lparr>streamable = Map.empty, sse = Map.empty, allocated = 0\<rparr>"

text \<open>
  \<^verbatim>\<open>app.post('/mcp', ...)\<close>. The predicate \<^verbatim>\<open>isInitializeRequest\<close> belongs to the
  protocol SDK and is a parameter. In the first branch the variable \<^verbatim>\<open>transport\<close>
  holds whatever the property read returned; the call \<^verbatim>\<open>transport.handleRequest(...)\<close>
  after the conditional raises when that value is an inherited member.
\<close>

definition post_mcp ::
  "('b \<Rightarrow> bool) \<Rightarrow> server_state \<Rightarrow> string option \<Rightarrow> 'b \<Rightarrow> outcome \<times> server_state" where
  "post_mcp isInitializeRequest st sessionId body =
     (case guarded_get (streamable st) sessionId of
        Own transport \<Rightarrow> (HandleRequest transport, st)
      | Inherited k \<Rightarrow> (Threw (TypeError ''transport.handleRequest is not a function''), st)
      | Undefined \<Rightarrow>
          if \<not> truthy sessionId \<and> isInitializeRequest body
          then (ConnectAndHandleRequest (allocated st), st\<lparr>allocated := Suc (allocated st)\<rparr>)
          else (Respond 400 (JsonBody no_valid_session_error), st))"

text \<open>\<^verbatim>\<open>handleSessionRequest\<close>, mounted for GET and for DELETE on \<^verbatim>\<open>/mcp\<close>.\<close>

definition handleSessionRequest :: "server_state \<Rightarrow> string option \<Rightarrow> outcome \<times> server_state" where
  "handleSessionRequest st sessionId =
     (case guarded_get (streamable st) sessionId of
        Undefined \<Rightarrow> (Respond 400 (TextBody ''Invalid or missing session ID''), st)
      | Own transport \<Rightarrow> (HandleRequest transport, st)
      | Inherited k \<Rightarrow> (Threw (TypeError ''transport.handleRequest is not a function''), st))"

text \<open>
  \<^verbatim>\<open>app.get('/sse', ...)\<close>. The constructor of the legacy transport draws the session
  id; it is the argument \<open>sessionId\<close> here. The entry is stored before
  \<^verbatim>\<open>server.connect(transport)\<close> runs.
\<close>

definition get_sse :: "server_state \<Rightarrow> string \<Rightarrow> outcome \<times> server_state" where
  "get_sse st sessionId =
     (ConnectStream (allocated st),
      st\<lparr>sse := (sse st)(sessionId \<mapsto> allocated st), allocated := Suc (allocated st)\<rparr>)"

text \<open>
  \<^verbatim>\<open>app.post('/messages', ...)\<close>. The read \<^verbatim>\<open>transports.sse[sessionId]\<close> converts
  the query value to a property key first.
\<close>

definition post_messages :: "server_state \<Rightarrow> query_param \<Rightarrow> outcome \<times> server_state" where
  "post_messages st q =
     (case to_property_key q of
        Inl e \<Rightarrow> (Threw e, st)
      | Inr sessionId \<Rightarrow>
          (case js_get (sse st) sessionId of
             Own transport \<Rightarrow> (HandlePostMessage transport, st)
           | Inherited k \<Rightarrow>
               (Threw (TypeError ''transport.handlePostMessage is not a function''), st)
           | Undefined \<Rightarrow> (Respond 400 (TextBody ''No transport found for sessionId''), st)))"

subsection \<open>The callbacks the handlers register\<close>

text \<open>
  \<^verbatim>\<open>onsessioninitialized: (sessionId) => { transports.streamable[sessionId] = transport; }\<close>
  for the transport object \<open>transport\<close> built by the handler that registered it.
  The SDK passes the value its \<^verbatim>\<open>sessionIdGenerator\<close> returned, a UUID; the
  assignment creates or overwrites the own property of that name.
\<close>

definition onsessioninitialized :: "nat \<Rightarrow> string \<Rightarrow> server_state \<Rightarrow> server_state" where
  "onsessioninitialized transport sessionId st =
     st\<lparr>streamable := (streamable st)(sessionId \<mapsto> transport)\<rparr>"

text \<open>
  \<^verbatim>\<open>transport.onclose = () => { if (transport.sessionId) { delete ...[transport.sessionId]; } }\<close>.
  The argument is the value of \<^verbatim>\<open>transport.sessionId\<close> when the callback runs.
\<close>

definition onclose :: "string option \<Rightarrow> server_state \<Rightarrow> server_state" where
  "onclose transport_sessionId st =
     (case transport_sessionId of
        None \<Rightarrow> st
      | Some s \<Rightarrow> if s = [] then st else st\<lparr>streamable := (streamable st)(s := None)\<rparr>)"

text \<open>\<^verbatim>\<open>res.on("close", () => { delete transports.sse[transport.sessionId]; })\<close>.\<close>

definition sse_res_close :: "string \<Rightarrow> server_state \<Rightarrow> server_state" where
  "sse_res_close transport_sessionId st = st\<lparr>sse := (sse st)(transport_sessionId := None)\<rparr>"

subsection \<open>Runs of the server\<close>

text \<open>
  What can happen to the tables, one event at a time: a request reaches one of the five
  routes, or the SDK invokes one of the three callbacks registered above. The ids in
  \<open>GetSse\<close> and \<open>SessionInitialized\<close> are the ones \<^verbatim>\<open>randomUUID()\<close> returned; the
  argument of \<open>TransportClosed\<close> is the session id of the transport being closed.
\<close>

datatype 'b event =
    PostMcp "string option" 'b
  | GetMcp "string option"
  | DeleteMcp "string option"
  | GetSse string
  | PostMessages query_param
  | SessionInitialized nat string
  | TransportClosed "string option"
  | SseResponseClosed string

fun step :: "('b \<Rightarrow> bool) \<Rightarrow> server_state \<Rightarrow> 'b event \<Rightarrow> server_state" where
  "step isInitializeRequest st (PostMcp sessionId body) =
     snd (post_mcp isInitializeRequest st sessionId body)"
| "step isInitializeRequest st (GetMcp sessionId) = snd (handleSessionRequest st sessionId)"
| "step isInitializeRequest st (DeleteMcp sessionId) = snd (handleSessionRequest st sessionId)"
| "step isInitializeRequest st (GetSse sessionId) = snd (get_sse st sessionId)"
| "step isInitializeRequest st (PostMessages q) = snd (post_messages st q)"
| "step isInitializeRequest st (SessionInitialized transport sessionId) =
     onsessioninitialized transport sessionId st"
| "step isInitializeRequest st (TransportClosed transport_sessionId) =
     onclose transport_sessionId st"
| "step isInitializeRequest st (SseResponseClosed transport_sessionId) =
     sse_res_close transport_sessionId st"

definition run :: "('b \<Rightarrow> bool) \<Rightarrow> server_state \<Rightarrow> 'b event list \<Rightarrow> server_state" where
  "run isInitializeRequest st evs = foldl (step isInitializeRequest) st evs"

text \<open>The event that completes an initialization handshake.\<close>

fun completes_handshake :: "'b event \<Rightarrow> bool" where
  "completes_handshake (SessionInitialized transport sessionId) = True"
| "completes_handshake _ = False"

text \<open>The event that registers the id \<open>s\<close> as a bidirectional session.\<close>

fun initializes :: "string \<Rightarrow> 'b event \<Rightarrow> bool" where
  "initializes s (SessionInitialized transport sessionId) = (sessionId = s)"
| "initializes s _ = False"

section \<open>Configuration loading (\<^verbatim>\<open>src/config.ts\<close>)\<close>

record app_config =
  defaultSearchEngine :: string
  allowedSearchEngines :: "string list"
  proxyUrl :: string
  useProxy :: bool
  enableCors :: bool
  corsOrigin :: string
  enableHttpServer :: bool

text \<open>\<^verbatim>\<open>process.env\<close>: a variable is unset or holds a string.\<close>

type_synonym env = "string \<rightharpoonup> string"

text \<open>\<^verbatim>\<open>x || d\<close> for \<^verbatim>\<open>x: string | undefined\<close>.\<close>

definition or_else :: "string option \<Rightarrow> string \<Rightarrow> string" where
  "or_else x d = (case x of None \<Rightarrow> d | Some s \<Rightarrow> if s = [] then d else s)"

text \<open>\<^verbatim>\<open>s.split(',')\<close>: the pieces between commas, at least one.\<close>

fun split_comma :: "string \<Rightarrow> string list" where
  "split_comma [] = [[]]"
| "split_comma (c # cs) =
     (if c = CHR '','' then [] # split_comma cs
      else (case split_comma cs of [] \<Rightarrow> [[c]] | w # ws \<Rightarrow> (c # w) # ws))"

text \<open>
  \<^verbatim>\<open>e.trim()\<close> removes white space and line terminators from both ends. A string
  stands for its UTF-8 encoding here, so each of these characters is the byte sequence
  below: U+0009 to U+000D, U+0020, U+00A0, U+1680, U+2000 to U+200A, U+2028, U+2029,
  U+202F, U+205F, U+3000 and U+FEFF.
\<close>

definition white_space :: "string list" where
  "white_space =
     [[CHR 0x09], [CHR 0x0A], [CHR 0x0B], [CHR 0x0C], [CHR 0x0D], [CHR 0x20],
      [CHR 0xC2, CHR 0xA0], [CHR 0xE1, CHR 0x9A, CHR 0x80],
      [CHR 0xE2, CHR 0x80, CHR 0x80], [CHR 0xE2, CHR 0x80, CHR 0x81],
      [CHR 0xE2, CHR 0x80, CHR 0x82], [CHR 0xE2, CHR 0x80, CHR 0x83],
      [CHR 0xE2, CHR 0x80, CHR 0x84], [CHR 0xE2, CHR 0x80, CHR 0x85],
      [CHR 0xE2, CHR 0x80, CHR 0x86], [CHR 0xE2, CHR 0x80, CHR 0x87],
      [CHR 0xE2, CHR 0x80, CHR 0x88], [CHR 0xE2, CHR 0x80, CHR 0x89],
      [CHR 0xE2, CHR 0x80, CHR 0x8A], [CHR 0xE2, CHR 0x80, CHR 0xA8],
      [CHR 0xE2, CHR 0x80, CHR 0xA9], [CHR 0xE2, CHR 0x80, CHR 0xAF],
      [CHR 0xE2, CHR 0x81, CHR 0x9F], [CHR 0xE3, CHR 0x80, CHR 0x80],
      [CHR 0xEF, CHR 0xBB, CHR 0xBF]]"

text \<open>Removes from the front of \<open>s\<close>, as long as there is one, a sequence of \<open>ws\<close>.\<close>

function strip_leading :: "string list \<Rightarrow> string \<Rightarrow> string" where
  "strip_leading ws s =
     (case find (\<lambda>w. w \<noteq> [] \<and> take (length w) s = w) ws of
        None \<Rightarrow> s
      | Some w \<Rightarrow> strip_leading ws (drop (length w) s))"
  by pat_completeness auto
termination
proof (relation "measure (\<lambda>(ws, s). length s)")
  show "wf (measure (\<lambda>(ws, s). length s))" by simp
next
  fix ws :: "string list" and s w :: string
  assume "find (\<lambda>w. w \<noteq> [] \<and> take (length w) s = w) ws = Some w"
  then have w: "w \<noteq> []" and "take (length w) s = w"
    by (auto simp: find_Some_iff)
  then have "s \<noteq> []" by auto
  with w show "((ws, drop (length w) s), (ws, s)) \<in> measure (\<lambda>(ws, s). length s)"
    by simp
qed

definition js_trim :: "string \<Rightarrow> string" where
  "js_trim s = rev (strip_leading (map rev white_space) (rev (strip_leading white_space s)))"

definition initial_config :: "env \<Rightarrow> app_config" where
  "initial_config e =
     \<lparr>defaultSearchEngine = or_else (e ''DEFAULT_SEARCH_ENGINE'') ''bing'',
      allowedSearchEngines =
        (case e ''ALLOWED_SEARCH_ENGINES'' of
           None \<Rightarrow> []
         | Some s \<Rightarrow> if s = [] then [] else map js_trim (split_comma s)),
      proxyUrl = or_else (e ''PROXY_URL'') ''http://127.0.0.1:10809'',
      useProxy = (e ''USE_PROXY'' = Some ''true''),
      enableCors = (e ''ENABLE_CORS'' = Some ''true''),
      corsOrigin = or_else (e ''CORS_ORIGIN'') ''*'',
      enableHttpServer =
        (case e ''MODE'' of
           None \<Rightarrow> True
         | Some m \<Rightarrow> if m = [] then True else m \<in> set [''both'', ''http''])\<rparr>"

definition validSearchEngines :: "string list" where
  "validSearchEngines =
     [''bing'', ''duckduckgo'', ''exa'', ''brave'', ''baidu'', ''csdn'', ''linuxdo'', ''juejin'']"

text \<open>
  The two validation blocks that follow the construction of \<^verbatim>\<open>config\<close> (the
  \<^verbatim>\<open>console.warn\<close> calls write to the log only). \<^verbatim>\<open>allowedSearchEngines[0]\<close> is
  read only where the list is not empty.
\<close>

definition validate_default :: "app_config \<Rightarrow> app_config" where
  "validate_default config =
     (if defaultSearchEngine config \<notin> set validSearchEngines
      then config\<lparr>defaultSearchEngine := ''bing''\<rparr>
      else config)"

definition validate_allowed :: "app_config \<Rightarrow> app_config" where
  "validate_allowed config =
     (if length (allowedSearchEngines config) > 0 then
        (let filtered = filter (\<lambda>engine. engine \<in> set validSearchEngines)
                               (allowedSearchEngines config);
             config' = config\<lparr>allowedSearchEngines := filtered\<rparr>
         in if length filtered = 0 then config'
            else if defaultSearchEngine config' \<notin> set filtered
            then (case filtered of
                    first # rest \<Rightarrow> config'\<lparr>defaultSearchEngine := first\<rparr>
                  | [] \<Rightarrow> config')
            else config')
      else config)"

definition load_config :: "env \<Rightarrow> app_config" where
  "load_config e = validate_allowed (validate_default (initial_config e))"

section \<open>Basic facts about property reads and runs\<close>

lemma uuid_not_empty: "is_uuid s \<Longrightarrow> s \<noteq> []"
  by (auto simp: is_uuid_def)

lemma uuid_not_inherited: "is_uuid s \<Longrightarrow> s \<notin> set object_prototype_keys"
  by (auto simp: is_uuid_def object_prototype_keys_def)

lemma js_get_absent:
  "obj k = None \<Longrightarrow> k \<notin> set object_prototype_keys \<Longrightarrow> js_get obj k = Undefined"
  by (simp add: js_get_def)


lemma guarded_get_unknown:
  "s \<noteq> [] \<Longrightarrow> obj s = None \<Longrightarrow> s \<notin> set object_prototype_keys \<Longrightarrow>
   guarded_get obj (Some s) = Undefined"
  by (simp add: js_get_absent)

lemma guarded_get_falsy: "\<not> truthy h \<Longrightarrow> guarded_get obj h = Undefined"
  by (cases h) auto

text \<open>
  How one event can change the entry of a key: not at all, by the event that stores it,
  or by the event that deletes it.
\<close>

lemma step_streamable_cases:
  "streamable (step i st e) s = streamable st s \<or>
   (\<exists>t. e = SessionInitialized t s \<and> streamable (step i st e) s = Some t) \<or>
   (e = TransportClosed (Some s) \<and> s \<noteq> [] \<and> streamable (step i st e) s = None)"
  by (cases e)
     (auto simp: post_mcp_def handleSessionRequest_def get_sse_def post_messages_def
        onsessioninitialized_def onclose_def sse_res_close_def
        split: js_lookup.splits option.splits sum.splits)

lemma step_sse_cases:
  "sse (step i st e) s = sse st s \<or>
   (e = GetSse s \<and> sse (step i st e) s = Some (allocated st)) \<or>
   (e = SseResponseClosed s \<and> sse (step i st e) s = None)"
  by (cases e)
     (auto simp: post_mcp_def handleSessionRequest_def get_sse_def post_messages_def
        onsessioninitialized_def onclose_def sse_res_close_def
        split: js_lookup.splits option.splits sum.splits)

lemma run_Nil: "run i st [] = st"
  by (simp add: run_def)

lemma run_Cons: "run i st (e # evs) = run i (step i st e) evs"
  by (simp add: run_def)

lemma run_snoc: "run i st (evs @ [e]) = step i (run i st evs) e"
  by (simp add: run_def)

lemma run_keeps_absent:
  "streamable st s = None \<Longrightarrow> list_all (\<lambda>e. \<not> initializes s e) evs \<Longrightarrow>
   streamable (run i st evs) s = None"
proof (induction evs rule: rev_induct)
  case Nil
  then show ?case by (simp add: run_Nil)
next
  case (snoc e evs)
  then have prev: "streamable (run i st evs) s = None" and ne: "\<not> initializes s e"
    by simp_all
  from step_streamable_cases [of i "run i st evs" e s] prev ne
  show ?case by (auto simp: run_snoc)
qed

section \<open>POST on the session-oriented route\<close>

text \<open>
  For a header that is absent, or whose value is neither registered nor a name inherited
  from \<^verbatim>\<open>Object.prototype\<close>, a POST to \<^verbatim>\<open>/mcp\<close> that is not an initialization
  request gets status 400 with the error envelope, nothing is forwarded and the state is
  unchanged.
\<close>

lemma post_mcp_rejects_unknown:
  assumes "\<not> isInitializeRequest body"
    and "h = None \<or> (\<exists>s. h = Some s \<and> streamable st s = None \<and> s \<notin> set object_prototype_keys)"
  shows "post_mcp isInitializeRequest st h body =
           (Respond 400 (JsonBody no_valid_session_error), st)"
  using assms by (auto simp: post_mcp_def js_get_absent)

text \<open>
  C1. A POST to \<^verbatim>\<open>/mcp\<close> whose session header matches no registered session and
  whose body is not an initialization request must be answered with status 400 and the
  error envelope. The code does not do so for the header value \<^verbatim>\<open>constructor\<close>: no
  session is registered, yet the read \<^verbatim>\<open>transports.streamable["constructor"]\<close> yields
  the inherited \<^verbatim>\<open>Object\<close> function, the first branch is taken, and the call of
  \<^verbatim>\<open>transport.handleRequest\<close> raises a \<^verbatim>\<open>TypeError\<close>; no 400 is sent. This holds
  for every body and every \<^verbatim>\<open>isInitializeRequest\<close>.
\<close>

theorem post_mcp_inherited_name_throws:
  "post_mcp isInitializeRequest initial_state (Some ''constructor'') body =
     (Threw (TypeError ''transport.handleRequest is not a function''), initial_state)"
  by (simp add: post_mcp_def initial_state_def js_get_def object_prototype_keys_def)

text \<open>
  An initialization request whose session header is present but empty starts a new
  session: the empty string is falsy, so \<^verbatim>\<open>!sessionId\<close> holds as it does for an
  absent header.
\<close>

theorem empty_header_starts_session:
  "post_mcp (\<lambda>b. b) initial_state (Some []) True =
     (ConnectAndHandleRequest 0, initial_state\<lparr>allocated := 1\<rparr>)"
  by (simp add: post_mcp_def initial_state_def)

text \<open>
  C9, as the code has it. A POST to \<^verbatim>\<open>/mcp\<close> with a non-empty session header whose
  value is neither registered nor a name inherited from \<^verbatim>\<open>Object.prototype\<close> is
  answered with status 400 and the error envelope whatever its body, an initialization
  request included. A new transport is built exactly when the header is absent or
  empty and the body is an initialization request; in no other case does the handler
  allocate one.
\<close>

theorem post_mcp_new_session_condition:
  "(s \<noteq> [] \<and> streamable st s = None \<and> s \<notin> set object_prototype_keys \<longrightarrow>
      post_mcp isInitializeRequest st (Some s) body =
        (Respond 400 (JsonBody no_valid_session_error), st))
   \<and> ((\<exists>t. fst (post_mcp isInitializeRequest st h body) = ConnectAndHandleRequest t) \<longleftrightarrow>
        (h = None \<or> h = Some []) \<and> isInitializeRequest body)
   \<and> (allocated (snd (post_mcp isInitializeRequest st h body)) \<noteq> allocated st \<longleftrightarrow>
        (h = None \<or> h = Some []) \<and> isInitializeRequest body)"
proof -
  have a: "s \<noteq> [] \<and> streamable st s = None \<and> s \<notin> set object_prototype_keys \<longrightarrow>
      post_mcp isInitializeRequest st (Some s) body =
        (Respond 400 (JsonBody no_valid_session_error), st)"
    by (simp add: post_mcp_def js_get_absent)
  have t: "\<not> truthy h \<longleftrightarrow> h = None \<or> h = Some []"
    by (cases h) auto
  have b: "(\<exists>t. fst (post_mcp isInitializeRequest st h body) = ConnectAndHandleRequest t) \<longleftrightarrow>
        \<not> truthy h \<and> isInitializeRequest body"
    by (cases h) (auto simp: post_mcp_def split: js_lookup.splits)
  have c: "allocated (snd (post_mcp isInitializeRequest st h body)) \<noteq> allocated st \<longleftrightarrow>
        \<not> truthy h \<and> isInitializeRequest body"
    by (cases h) (auto simp: post_mcp_def split: js_lookup.splits)
  show ?thesis using a b c t by simp
qed

text \<open>
  An instance: with no session registered, an initialization request carrying an
  unknown UUID is rejected, and the same request without the header starts a session.
\<close>

theorem post_mcp_new_session_condition_witness:
  "post_mcp (\<lambda>b. b) initial_state (Some ''123e4567-e89b-42d3-a456-426614174000'') True =
     (Respond 400 (JsonBody no_valid_session_error), initial_state)
   \<and> fst (post_mcp (\<lambda>b. b) initial_state None True) = ConnectAndHandleRequest 0"
proof -
  let ?u = "''123e4567-e89b-42d3-a456-426614174000''"
  have a: "?u \<noteq> [] \<and> streamable initial_state ?u = None \<and> ?u \<notin> set object_prototype_keys"
    by (simp add: initial_state_def object_prototype_keys_def)
  have b: "fst (post_mcp (\<lambda>b. b) initial_state None True) = ConnectAndHandleRequest 0"
    by (simp add: post_mcp_def initial_state_def)
  from post_mcp_new_session_condition [of ?u initial_state "\<lambda>b. b" True None] a b
  show ?thesis by blast
qed

section \<open>GET and DELETE on the session-oriented route\<close>

text \<open>
  For a header that is absent, or whose value is neither registered nor a name inherited
  from \<^verbatim>\<open>Object.prototype\<close>, the handler answers with status 400 and the plain
  text, and the state is unchanged.
\<close>

lemma handleSessionRequest_rejects_unknown:
  assumes "h = None \<or> (\<exists>s. h = Some s \<and> streamable st s = None \<and> s \<notin> set object_prototype_keys)"
  shows "handleSessionRequest st h = (Respond 400 (TextBody ''Invalid or missing session ID''), st)"
  using assms by (auto simp: handleSessionRequest_def js_get_absent)

text \<open>
  C5. A GET or DELETE on \<^verbatim>\<open>/mcp\<close> whose session header is not in the streamable
  table must be answered with status 400 and the text \<^verbatim>\<open>Invalid or missing session ID\<close>.
  The code does not do so for the header value \<^verbatim>\<open>constructor\<close>: the table is empty,
  yet \<^verbatim>\<open>!transports.streamable[sessionId]\<close> is false because the read yields the
  inherited \<^verbatim>\<open>Object\<close> function, and the call of \<^verbatim>\<open>transport.handleRequest\<close>
  raises a \<^verbatim>\<open>TypeError\<close>.
\<close>

theorem handleSessionRequest_inherited_name_throws:
  "handleSessionRequest initial_state (Some ''constructor'') =
     (Threw (TypeError ''transport.handleRequest is not a function''), initial_state)"
  by (simp add: handleSessionRequest_def initial_state_def js_get_def object_prototype_keys_def)

section \<open>Closed sessions\<close>

text \<open>
  C2. Let \<open>s\<close> be a server-generated session id. After a DELETE on \<^verbatim>\<open>/mcp\<close> with
  header \<open>s\<close> and the close callback of its transport, and after any further events
  among which the id generator does not produce \<open>s\<close> again, every GET, DELETE and POST
  on \<^verbatim>\<open>/mcp\<close> carrying \<open>s\<close> is answered with status 400 (whatever the body of the
  POST, an initialization request included) and leaves the state as it is.
\<close>

theorem closed_session_id_rejected:
  assumes "is_uuid s"
    and "list_all (\<lambda>e. \<not> initializes s e) evs"
    and "st' = run isInitializeRequest st (DeleteMcp (Some s) # TransportClosed (Some s) # evs)"
  shows "handleSessionRequest st' (Some s) =
           (Respond 400 (TextBody ''Invalid or missing session ID''), st')
       \<and> post_mcp isInitializeRequest st' (Some s) body =
           (Respond 400 (JsonBody no_valid_session_error), st')
       \<and> step isInitializeRequest st' (GetMcp (Some s)) = st'
       \<and> step isInitializeRequest st' (DeleteMcp (Some s)) = st'
       \<and> step isInitializeRequest st' (PostMcp (Some s) body) = st'"
proof -
  have ne: "s \<noteq> []" and ni: "s \<notin> set object_prototype_keys"
    using assms(1) by (simp_all add: uuid_not_empty uuid_not_inherited)
  let ?st0 = "step isInitializeRequest st (DeleteMcp (Some s))"
  let ?st1 = "step isInitializeRequest ?st0 (TransportClosed (Some s))"
  have "streamable ?st1 s = None"
    using ne by (simp add: onclose_def)
  then have gone: "streamable st' s = None"
    unfolding assms(3) run_Cons by (rule run_keeps_absent) (rule assms(2))
  have g: "guarded_get (streamable st') (Some s) = Undefined"
    using ne gone ni by (rule guarded_get_unknown)
  have a: "handleSessionRequest st' (Some s) =
             (Respond 400 (TextBody ''Invalid or missing session ID''), st')"
    by (simp only: handleSessionRequest_def g js_lookup.case)
  have b: "post_mcp isInitializeRequest st' (Some s) body =
             (Respond 400 (JsonBody no_valid_session_error), st')"
    using ne by (simp only: post_mcp_def g js_lookup.case truthy.simps) simp
  show ?thesis using a b by simp
qed

text \<open>
  An instance: a session is registered and answers, is deleted and closed, a legacy
  stream is opened and a new initialization request arrives; the closed id is then
  rejected.
\<close>

theorem closed_session_id_rejected_witness:
  "handleSessionRequest
     (run (\<lambda>b. b) (onsessioninitialized 0 ''123e4567-e89b-42d3-a456-426614174000'' initial_state)
        [DeleteMcp (Some ''123e4567-e89b-42d3-a456-426614174000''),
         TransportClosed (Some ''123e4567-e89b-42d3-a456-426614174000''),
         GetSse ''00000000-0000-4000-8000-000000000000'',
         PostMcp None True])
     (Some ''123e4567-e89b-42d3-a456-426614174000'') =
   (Respond 400 (TextBody ''Invalid or missing session ID''),
    run (\<lambda>b. b) (onsessioninitialized 0 ''123e4567-e89b-42d3-a456-426614174000'' initial_state)
        [DeleteMcp (Some ''123e4567-e89b-42d3-a456-426614174000''),
         TransportClosed (Some ''123e4567-e89b-42d3-a456-426614174000''),
         GetSse ''00000000-0000-4000-8000-000000000000'',
         PostMcp None True])
   \<and> fst (handleSessionRequest
        (onsessioninitialized 0 ''123e4567-e89b-42d3-a456-426614174000'' initial_state)
        (Some ''123e4567-e89b-42d3-a456-426614174000'')) = HandleRequest 0"
proof -
  have u: "is_uuid ''123e4567-e89b-42d3-a456-426614174000''"
    by (simp add: is_uuid_def)
  have q: "list_all (\<lambda>e. \<not> initializes ''123e4567-e89b-42d3-a456-426614174000'' e)
             [GetSse ''00000000-0000-4000-8000-000000000000'', PostMcp None True]"
    by simp
  have live: "fst (handleSessionRequest
        (onsessioninitialized 0 ''123e4567-e89b-42d3-a456-426614174000'' initial_state)
        (Some ''123e4567-e89b-42d3-a456-426614174000'')) = HandleRequest 0"
    by (simp add: handleSessionRequest_def onsessioninitialized_def initial_state_def js_get_def)
  from closed_session_id_rejected [OF u q refl, of "\<lambda>b. b"
      "onsessioninitialized 0 ''123e4567-e89b-42d3-a456-426614174000'' initial_state" True]
  show ?thesis using live by blast
qed

section \<open>How entries get into the tables\<close>

lemma run_streamable_origin:
  "streamable (run i initial_state evs) s = Some t \<Longrightarrow> SessionInitialized t s \<in> set evs"
proof (induction evs arbitrary: t rule: rev_induct)
  case Nil
  then show ?case by (simp add: run_Nil initial_state_def)
next
  case (snoc e evs)
  have now: "streamable (step i (run i initial_state evs) e) s = Some t"
    using snoc.prems by (simp add: run_snoc)
  from step_streamable_cases [of i "run i initial_state evs" e s]
  consider "streamable (run i initial_state evs) s = Some t" | "e = SessionInitialized t s"
    using now by auto
  then show ?case
  proof cases
    case 1
    then show ?thesis using snoc.IH by simp
  next
    case 2
    then show ?thesis by simp
  qed
qed

lemma run_sse_origin:
  "sse (run i initial_state evs) s = Some t \<Longrightarrow> GetSse s \<in> set evs"
proof (induction evs arbitrary: t rule: rev_induct)
  case Nil
  then show ?case by (simp add: run_Nil initial_state_def)
next
  case (snoc e evs)
  have now: "sse (step i (run i initial_state evs) e) s = Some t"
    using snoc.prems by (simp add: run_snoc)
  from step_sse_cases [of i "run i initial_state evs" e s]
  consider "sse (run i initial_state evs) s = Some t" | "e = GetSse s"
    using now by auto
  then show ?case
  proof cases
    case 1
    then show ?thesis using snoc.IH by simp
  next
    case 2
    then show ?thesis by simp
  qed
qed

text \<open>
  The legacy table gets its entry from the GET on \<^verbatim>\<open>/sse\<close> itself, an event that
  completes no handshake: on the empty tables the id is registered right after it.
\<close>

theorem sse_entry_before_handshake:
  "sse initial_state ''123e4567-e89b-42d3-a456-426614174000'' = None
   \<and> sse (step (\<lambda>b. b) initial_state (GetSse ''123e4567-e89b-42d3-a456-426614174000''))
        ''123e4567-e89b-42d3-a456-426614174000'' = Some 0
   \<and> \<not> completes_handshake (GetSse ''123e4567-e89b-42d3-a456-426614174000'' :: bool event)"
  by (simp add: initial_state_def get_sse_def)

text \<open>
  C3, as the code has it. An entry of the streamable table is stored only by the
  \<^verbatim>\<open>onsessioninitialized\<close> callback of its transport, that is once the initialization
  of that endpoint has completed: this holds for each single event and for every entry
  present after any run from the empty tables. An entry of the legacy table is stored
  only by a GET on \<^verbatim>\<open>/sse\<close>, which registers the new endpoint at once, before any
  handshake.
\<close>

theorem table_entries_origin:
  "(streamable (step i st e) s = Some t \<and> streamable st s \<noteq> Some t
      \<longrightarrow> e = SessionInitialized t s \<and> completes_handshake e)
   \<and> (streamable (run i initial_state evs) s = Some t \<longrightarrow> SessionInitialized t s \<in> set evs)
   \<and> (sse (step i st e) s = Some t \<and> sse st s \<noteq> Some t \<longrightarrow> e = GetSse s \<and> t = allocated st)
   \<and> (sse (run i initial_state evs) s = Some t \<longrightarrow> GetSse s \<in> set evs)
   \<and> sse (step i st (GetSse s)) s = Some (allocated st)"
proof -
  have a: "streamable (step i st e) s = Some t \<and> streamable st s \<noteq> Some t
      \<longrightarrow> e = SessionInitialized t s \<and> completes_handshake e"
    using step_streamable_cases [of i st e s] by auto
  have b: "sse (step i st e) s = Some t \<and> sse st s \<noteq> Some t \<longrightarrow> e = GetSse s \<and> t = allocated st"
    using step_sse_cases [of i st e s] by auto
  have c: "sse (step i st (GetSse s)) s = Some (allocated st)"
    by (simp add: get_sse_def)
  show ?thesis using a b c run_streamable_origin run_sse_origin by blast
qed

text \<open>
  An instance: an initialization request, its completion, and a legacy stream; each
  table holds the id that its own registering event stored.
\<close>

theorem table_entries_origin_witness:
  "streamable (run (\<lambda>b. b) initial_state
       [PostMcp None True, SessionInitialized 0 ''123e4567-e89b-42d3-a456-426614174000'',
        GetSse ''00000000-0000-4000-8000-000000000000''])
     ''123e4567-e89b-42d3-a456-426614174000'' = Some 0
   \<and> SessionInitialized 0 ''123e4567-e89b-42d3-a456-426614174000'' \<in>
       set [PostMcp None True, SessionInitialized 0 ''123e4567-e89b-42d3-a456-426614174000'',
        GetSse ''00000000-0000-4000-8000-000000000000'']
   \<and> sse (run (\<lambda>b. b) initial_state
       [PostMcp None True, SessionInitialized 0 ''123e4567-e89b-42d3-a456-426614174000'',
        GetSse ''00000000-0000-4000-8000-000000000000''])
     ''00000000-0000-4000-8000-000000000000'' = Some 1
   \<and> GetSse ''00000000-0000-4000-8000-000000000000'' \<in>
       set [PostMcp None True, SessionInitialized 0 ''123e4567-e89b-42d3-a456-426614174000'',
        GetSse ''00000000-0000-4000-8000-000000000000'' :: bool event]"
proof -
  let ?evs = "[PostMcp None True, SessionInitialized 0 ''123e4567-e89b-42d3-a456-426614174000'',
        GetSse ''00000000-0000-4000-8000-000000000000'']"
  have a: "streamable (run (\<lambda>b. b) initial_state ?evs)
     ''123e4567-e89b-42d3-a456-426614174000'' = Some 0"
    by (simp add: run_def post_mcp_def get_sse_def onsessioninitialized_def initial_state_def)
  have b: "sse (run (\<lambda>b. b) initial_state ?evs)
     ''00000000-0000-4000-8000-000000000000'' = Some 1"
    by (simp add: run_def post_mcp_def get_sse_def onsessioninitialized_def initial_state_def)
  from table_entries_origin [of "\<lambda>b. b" initial_state "GetSse ''00000000-0000-4000-8000-000000000000''"
      "''123e4567-e89b-42d3-a456-426614174000''" 0 ?evs]
    table_entries_origin [of "\<lambda>b. b" initial_state "GetSse ''00000000-0000-4000-8000-000000000000''"
      "''00000000-0000-4000-8000-000000000000''" 1 ?evs] a b
  show ?thesis by blast
qed

text \<open>
  Storing an id that is already present raises nothing and replaces the entry: a second
  GET on \<^verbatim>\<open>/sse\<close> that draws the same id is answered like the first and leaves the
  second endpoint in the table; likewise for two initializations with the same id.
\<close>

theorem duplicate_insert_replaces_entry:
  "sse (snd (get_sse initial_state ''123e4567-e89b-42d3-a456-426614174000''))
       ''123e4567-e89b-42d3-a456-426614174000'' = Some 0
   \<and> fst (get_sse (snd (get_sse initial_state ''123e4567-e89b-42d3-a456-426614174000''))
          ''123e4567-e89b-42d3-a456-426614174000'') = ConnectStream 1
   \<and> sse (snd (get_sse (snd (get_sse initial_state ''123e4567-e89b-42d3-a456-426614174000''))
          ''123e4567-e89b-42d3-a456-426614174000''))
       ''123e4567-e89b-42d3-a456-426614174000'' = Some 1
   \<and> streamable (onsessioninitialized 0 ''123e4567-e89b-42d3-a456-426614174000'' initial_state)
       ''123e4567-e89b-42d3-a456-426614174000'' = Some 0
   \<and> streamable (onsessioninitialized 1 ''123e4567-e89b-42d3-a456-426614174000''
         (onsessioninitialized 0 ''123e4567-e89b-42d3-a456-426614174000'' initial_state))
       ''123e4567-e89b-42d3-a456-426614174000'' = Some 1"
  by (simp add: get_sse_def onsessioninitialized_def initial_state_def)

text \<open>
  C4, as the code has it. Both insertions are plain assignments, and each table is
  taken on its own: when the id is already present in the streamable table, the
  \<^verbatim>\<open>onsessioninitialized\<close> callback succeeds and the new endpoint replaces the
  existing entry; when the id is already present in the legacy table, the GET on
  \<^verbatim>\<open>/sse\<close> is answered as usual and the new endpoint replaces the existing entry.
  No error is raised; the code has no \<^verbatim>\<open>DuplicateSessionError\<close>.
\<close>

theorem insert_overwrites:
  "(streamable st s = Some old \<longrightarrow>
      streamable (onsessioninitialized t s st) s = Some t)
   \<and> (sse st s = Some old' \<longrightarrow>
        fst (get_sse st s) = ConnectStream (allocated st)
      \<and> sse (snd (get_sse st s)) s = Some (allocated st))"
  by (simp add: onsessioninitialized_def get_sse_def)

text \<open>
  An instance for each table alone: the id is registered in the streamable table only
  and initialized again by another endpoint; the id is registered in the legacy table
  only and drawn again by a second GET on \<^verbatim>\<open>/sse\<close>.
\<close>

theorem insert_overwrites_witness:
  "streamable (onsessioninitialized 0 ''123e4567-e89b-42d3-a456-426614174000'' initial_state)
     ''123e4567-e89b-42d3-a456-426614174000'' = Some 0
   \<and> sse (onsessioninitialized 0 ''123e4567-e89b-42d3-a456-426614174000'' initial_state)
     ''123e4567-e89b-42d3-a456-426614174000'' = None
   \<and> streamable (onsessioninitialized 7 ''123e4567-e89b-42d3-a456-426614174000''
       (onsessioninitialized 0 ''123e4567-e89b-42d3-a456-426614174000'' initial_state))
     ''123e4567-e89b-42d3-a456-426614174000'' = Some 7
   \<and> sse (snd (get_sse initial_state ''123e4567-e89b-42d3-a456-426614174000''))
     ''123e4567-e89b-42d3-a456-426614174000'' = Some 0
   \<and> streamable (snd (get_sse initial_state ''123e4567-e89b-42d3-a456-426614174000''))
     ''123e4567-e89b-42d3-a456-426614174000'' = None
   \<and> fst (get_sse (snd (get_sse initial_state ''123e4567-e89b-42d3-a456-426614174000''))
       ''123e4567-e89b-42d3-a456-426614174000'') = ConnectStream 1
   \<and> sse (snd (get_sse (snd (get_sse initial_state ''123e4567-e89b-42d3-a456-426614174000''))
       ''123e4567-e89b-42d3-a456-426614174000''))
     ''123e4567-e89b-42d3-a456-426614174000'' = Some 1"
proof -
  let ?u = "''123e4567-e89b-42d3-a456-426614174000''"
  let ?a = "onsessioninitialized 0 ?u initial_state"
  let ?b = "snd (get_sse initial_state ?u)"
  have a: "streamable ?a ?u = Some 0" and a': "sse ?a ?u = None"
    by (simp_all add: onsessioninitialized_def initial_state_def)
  have b: "sse ?b ?u = Some 0" and b': "streamable ?b ?u = None"
    and al: "allocated ?b = 1"
    by (simp_all add: get_sse_def initial_state_def)
  have ra: "streamable (onsessioninitialized 7 ?u ?a) ?u = Some 7"
    using insert_overwrites [where st = ?a and s = ?u and old = 0 and t = 7] a by blast
  have rb: "fst (get_sse ?b ?u) = ConnectStream (allocated ?b)
      \<and> sse (snd (get_sse ?b ?u)) ?u = Some (allocated ?b)"
    using insert_overwrites [where st = ?b and s = ?u and old' = 0] b by blast
  show ?thesis using a a' b b' ra rb al by simp
qed

section \<open>The legacy routes\<close>

text \<open>
  The session id of a POST to \<^verbatim>\<open>/messages\<close> is the query parameter. When it
  converts to the key \<open>k\<close>, and unless \<open>k\<close> is a name inherited from
  \<^verbatim>\<open>Object.prototype\<close> that is not registered, the message goes to the endpoint
  registered under \<open>k\<close>, and without one the answer is status 400 with the plain text;
  the state is unchanged either way.
\<close>

lemma post_messages_forwards_or_rejects:
  assumes "to_property_key q = Inr k"
    and "k \<notin> set object_prototype_keys \<or> sse st k \<noteq> None"
  shows "post_messages st q =
           (case sse st k of
              Some t \<Rightarrow> (HandlePostMessage t, st)
            | None \<Rightarrow> (Respond 400 (TextBody ''No transport found for sessionId''), st))"
  using assms by (auto simp: post_messages_def js_get_def split: option.splits)

text \<open>
  C6. A POST to \<^verbatim>\<open>/messages\<close> whose \<^verbatim>\<open>sessionId\<close> maps to no live endpoint of
  the legacy table must be answered with status 400 and the text
  \<^verbatim>\<open>No transport found for sessionId\<close>. The code does not do so for
  \<^verbatim>\<open>?sessionId=constructor\<close>: the table is empty, yet \<^verbatim>\<open>transports.sse[sessionId]\<close>
  yields the inherited \<^verbatim>\<open>Object\<close> function, the test \<^verbatim>\<open>if (transport)\<close> succeeds,
  and the call of \<^verbatim>\<open>transport.handlePostMessage\<close> raises a \<^verbatim>\<open>TypeError\<close>.
\<close>

theorem post_messages_inherited_name_throws:
  "post_messages initial_state (QString ''constructor'') =
     (Threw (TypeError ''transport.handlePostMessage is not a function''), initial_state)"
  by (simp add: post_messages_def initial_state_def js_get_def object_prototype_keys_def)

text \<open>
  A query value that cannot be converted to a property key is not answered with status
  400 either: for \<^verbatim>\<open>?sessionId[toString]=x\<close> the read of the table raises.
\<close>

lemma post_messages_unconvertible_key_throws:
  "post_messages st (QObject [(''toString'', QString ''x'')]) =
     (Threw (TypeError ''Cannot convert object to primitive value''), st)"
  by (simp add: post_messages_def)



section \<open>The two tables are kept apart\<close>

text \<open>
  C8. Let \<open>s\<close> be a server-generated id. If \<open>s\<close> is not in the legacy table, a POST to
  \<^verbatim>\<open>/messages\<close> with \<open>s\<close> is answered with status 400, whatever the streamable table
  holds for \<open>s\<close>; if \<open>s\<close> is not in the streamable table, GET, DELETE and POST on
  \<^verbatim>\<open>/mcp\<close> with \<open>s\<close> are answered with status 400, whatever the legacy table holds.
  Moreover the answer of \<^verbatim>\<open>/messages\<close> to any request is the same after the
  streamable table is replaced by any other, and the answers of the \<^verbatim>\<open>/mcp\<close> routes
  are the same after the legacy table is replaced by any other: each route reads its own
  table only.
\<close>

theorem tables_never_cross_matched:
  assumes "is_uuid s"
  shows "(sse st s = None \<longrightarrow>
            post_messages st (QString s) =
              (Respond 400 (TextBody ''No transport found for sessionId''), st))
       \<and> (streamable st s = None \<longrightarrow>
            handleSessionRequest st (Some s) =
              (Respond 400 (TextBody ''Invalid or missing session ID''), st)
          \<and> post_mcp isInitializeRequest st (Some s) body =
              (Respond 400 (JsonBody no_valid_session_error), st))
       \<and> fst (post_messages (st\<lparr>streamable := other\<rparr>) q) = fst (post_messages st q)
       \<and> fst (handleSessionRequest (st\<lparr>sse := other'\<rparr>) h) = fst (handleSessionRequest st h)
       \<and> fst (post_mcp isInitializeRequest (st\<lparr>sse := other'\<rparr>) h body) =
           fst (post_mcp isInitializeRequest st h body)"
proof -
  have ne: "s \<noteq> []" and ni: "s \<notin> set object_prototype_keys"
    using assms by (simp_all add: uuid_not_empty uuid_not_inherited)
  have a: "sse st s = None \<longrightarrow>
            post_messages st (QString s) =
              (Respond 400 (TextBody ''No transport found for sessionId''), st)"
    using ni by (simp add: post_messages_def js_get_absent)
  have b: "streamable st s = None \<longrightarrow>
            handleSessionRequest st (Some s) =
              (Respond 400 (TextBody ''Invalid or missing session ID''), st)
          \<and> post_mcp isInitializeRequest st (Some s) body =
              (Respond 400 (JsonBody no_valid_session_error), st)"
    using ne ni by (simp add: handleSessionRequest_def post_mcp_def js_get_absent)
  have c: "fst (post_messages (st\<lparr>streamable := other\<rparr>) q) = fst (post_messages st q)"
    by (simp add: post_messages_def split: js_lookup.splits sum.splits)
  have d: "fst (handleSessionRequest (st\<lparr>sse := other'\<rparr>) h) = fst (handleSessionRequest st h)"
    by (simp add: handleSessionRequest_def split: js_lookup.splits)
  have e: "fst (post_mcp isInitializeRequest (st\<lparr>sse := other'\<rparr>) h body) =
           fst (post_mcp isInitializeRequest st h body)"
    by (simp add: post_mcp_def split: js_lookup.splits)
  show ?thesis using a b c d e by blast
qed

text \<open>
  An instance: an id registered as a bidirectional session answers on \<^verbatim>\<open>/mcp\<close> and is
  unknown to \<^verbatim>\<open>/messages\<close>; an id registered as a legacy session is forwarded by
  \<^verbatim>\<open>/messages\<close> and unknown to \<^verbatim>\<open>/mcp\<close>.
\<close>

theorem tables_never_cross_matched_witness:
  "post_messages
     (onsessioninitialized 0 ''123e4567-e89b-42d3-a456-426614174000'' initial_state)
     (QString ''123e4567-e89b-42d3-a456-426614174000'') =
     (Respond 400 (TextBody ''No transport found for sessionId''),
      onsessioninitialized 0 ''123e4567-e89b-42d3-a456-426614174000'' initial_state)
   \<and> fst (handleSessionRequest
       (onsessioninitialized 0 ''123e4567-e89b-42d3-a456-426614174000'' initial_state)
       (Some ''123e4567-e89b-42d3-a456-426614174000'')) = HandleRequest 0
   \<and> handleSessionRequest
       (snd (get_sse initial_state ''123e4567-e89b-42d3-a456-426614174000''))
       (Some ''123e4567-e89b-42d3-a456-426614174000'') =
     (Respond 400 (TextBody ''Invalid or missing session ID''),
      snd (get_sse initial_state ''123e4567-e89b-42d3-a456-426614174000''))
   \<and> fst (post_messages
       (snd (get_sse initial_state ''123e4567-e89b-42d3-a456-426614174000''))
       (QString ''123e4567-e89b-42d3-a456-426614174000'')) = HandlePostMessage 0"
proof -
  let ?u = "''123e4567-e89b-42d3-a456-426614174000''"
  let ?a = "onsessioninitialized 0 ?u initial_state"
  let ?b = "snd (get_sse initial_state ?u)"
  have u: "is_uuid ?u" by (simp add: is_uuid_def)
  have a: "sse ?a ?u = None" by (simp add: onsessioninitialized_def initial_state_def)
  have b: "streamable ?b ?u = None" by (simp add: get_sse_def initial_state_def)
  have la: "fst (handleSessionRequest ?a (Some ?u)) = HandleRequest 0"
    by (simp add: handleSessionRequest_def onsessioninitialized_def initial_state_def js_get_def)
  have lb: "fst (post_messages ?b (QString ?u)) = HandlePostMessage 0"
    by (simp add: post_messages_def get_sse_def initial_state_def js_get_def)
  note t = tables_never_cross_matched [OF u, where isInitializeRequest = "\<lambda>b. b" and body = True
      and other = Map.empty and other' = Map.empty and q = QAbsent and h = None]
  have ra: "post_messages ?a (QString ?u) =
      (Respond 400 (TextBody ''No transport found for sessionId''), ?a)"
    using t [where st = ?a] a by blast
  have rb: "handleSessionRequest ?b (Some ?u) =
      (Respond 400 (TextBody ''Invalid or missing session ID''), ?b)"
    using t [where st = ?b] b by blast
  show ?thesis using ra rb la lb by simp
qed

section \<open>The default search engine\<close>

lemma validate_default_valid:
  "defaultSearchEngine (validate_default config) \<in> set validSearchEngines"
  by (simp add: validate_default_def validSearchEngines_def)

lemma validate_allowed_valid:
  "defaultSearchEngine config \<in> set validSearchEngines \<Longrightarrow>
   defaultSearchEngine (validate_allowed config) \<in> set validSearchEngines"
proof -
  assume v: "defaultSearchEngine config \<in> set validSearchEngines"
  let ?f = "filter (\<lambda>engine. engine \<in> set validSearchEngines) (allowedSearchEngines config)"
  show ?thesis
  proof (cases ?f)
    case Nil
    then show ?thesis using v by (simp add: validate_allowed_def Let_def)
  next
    case (Cons first rest)
    then have "first \<in> set ?f" by simp
    then have "first \<in> set validSearchEngines" by simp
    then show ?thesis using v Cons by (simp add: validate_allowed_def Let_def)
  qed
qed

lemma validate_allowed_contains:
  "allowedSearchEngines (validate_allowed config) \<noteq> [] \<Longrightarrow>
   defaultSearchEngine (validate_allowed config) \<in> set (allowedSearchEngines (validate_allowed config))"
  by (auto simp: validate_allowed_def Let_def split: if_splits list.splits)

text \<open>
  C10. Whatever the environment holds, the loaded configuration has a default search
  engine from the list of valid engines, and when its list of allowed engines is not
  empty the default engine is one of them. When the environment names an invalid
  default engine and no allowed engine remains, the default engine is \<^verbatim>\<open>bing\<close>.
\<close>

theorem load_config_default_engine:
  "defaultSearchEngine (load_config e) \<in> set validSearchEngines
   \<and> (allowedSearchEngines (load_config e) \<noteq> [] \<longrightarrow>
        defaultSearchEngine (load_config e) \<in> set (allowedSearchEngines (load_config e)))
   \<and> (defaultSearchEngine (initial_config e) \<notin> set validSearchEngines
        \<and> allowedSearchEngines (load_config e) = [] \<longrightarrow>
        defaultSearchEngine (load_config e) = ''bing'')"
proof -
  have a: "defaultSearchEngine (load_config e) \<in> set validSearchEngines"
    unfolding load_config_def by (rule validate_allowed_valid) (rule validate_default_valid)
  have b: "allowedSearchEngines (load_config e) \<noteq> [] \<longrightarrow>
        defaultSearchEngine (load_config e) \<in> set (allowedSearchEngines (load_config e))"
    unfolding load_config_def using validate_allowed_contains by blast
  have c: "defaultSearchEngine (initial_config e) \<notin> set validSearchEngines
        \<and> allowedSearchEngines (load_config e) = [] \<longrightarrow>
        defaultSearchEngine (load_config e) = ''bing''"
    by (auto simp: load_config_def validate_allowed_def validate_default_def Let_def
          split: if_splits list.splits)
  show ?thesis using a b c by blast
qed

text \<open>
  An instance: with the default \<^verbatim>\<open>google\<close> and the allowed list
  \<^verbatim>\<open>exa, yahoo,brave\<close> the list becomes \<^verbatim>\<open>exa\<close>, \<^verbatim>\<open>brave\<close> and the default one of
  them; with the default \<^verbatim>\<open>google\<close> alone the default becomes \<^verbatim>\<open>bing\<close>.
\<close>

theorem load_config_default_engine_witness:
  "allowedSearchEngines
     (load_config [''DEFAULT_SEARCH_ENGINE'' \<mapsto> ''google'',
                   ''ALLOWED_SEARCH_ENGINES'' \<mapsto> ''exa, yahoo,brave'']) = [''exa'', ''brave'']
   \<and> defaultSearchEngine
     (load_config [''DEFAULT_SEARCH_ENGINE'' \<mapsto> ''google'',
                   ''ALLOWED_SEARCH_ENGINES'' \<mapsto> ''exa, yahoo,brave'']) \<in> set [''exa'', ''brave'']
   \<and> defaultSearchEngine (load_config [''DEFAULT_SEARCH_ENGINE'' \<mapsto> ''google'']) = ''bing''"
proof -
  let ?e = "[''DEFAULT_SEARCH_ENGINE'' \<mapsto> ''google'',
             ''ALLOWED_SEARCH_ENGINES'' \<mapsto> ''exa, yahoo,brave'']"
  let ?e2 = "[''DEFAULT_SEARCH_ENGINE'' \<mapsto> ''google'']"
  have a: "allowedSearchEngines (load_config ?e) = [''exa'', ''brave'']"
    by (simp add: load_config_def validate_allowed_def validate_default_def initial_config_def
          or_else_def js_trim_def white_space_def validSearchEngines_def Let_def)
  have b: "allowedSearchEngines (load_config ?e2) = []"
    by (simp add: load_config_def validate_allowed_def validate_default_def initial_config_def
          or_else_def validSearchEngines_def Let_def)
  have c: "defaultSearchEngine (initial_config ?e2) \<notin> set validSearchEngines"
    by (simp add: initial_config_def or_else_def validSearchEngines_def)
  from load_config_default_engine [of ?e] load_config_default_engine [of ?e2] a b c
  show ?thesis by simp
qed

end
